theory Spec2Isabelle
  imports Main "HOL-Library.Multiset"
begin

section \<open>Treasury tips: the derivation of a tip's display state\<close>

text \<open>
  The development embeds \<^verbatim>\<open>isCurrentTip\<close> and \<^verbatim>\<open>extractTipState\<close> of
  \<^verbatim>\<open>packages/page-treasury/src/Tips/Tip.tsx\<close>. The chain types (\<^verbatim>\<open>AccountId\<close>,
  \<^verbatim>\<open>Balance\<close>, \<^verbatim>\<open>BlockNumber\<close>, \<^verbatim>\<open>Option\<close>, \<^verbatim>\<open>OpenTip\<close>, \<^verbatim>\<open>OpenTipTo225\<close>) and
  the big-number class \<^verbatim>\<open>BN\<close> are imported by the source from libraries; they are modelled
  here by what the two functions use of them.
\<close>

subsection \<open>Library types\<close>

text \<open>
  An \<^verbatim>\<open>AccountId\<close> is used only through \<^verbatim>\<open>toString()\<close>, its address string.
\<close>

datatype AccountId = AccountId (toString: string)

text \<open>
  \<^verbatim>\<open>BN\<close> is an arbitrary-precision integer; \<^verbatim>\<open>Balance\<close> is the chain's unsigned
  integer, a \<^verbatim>\<open>BN\<close> that is never negative. \<^verbatim>\<open>add\<close> and \<^verbatim>\<open>divn\<close> return a new
  \<^verbatim>\<open>BN\<close> and do not wrap, so sums and halves of balances are natural numbers.
  \<^verbatim>\<open>divn\<close> divides by a small number and drops the remainder; \<^verbatim>\<open>cmp\<close> returns
  -1, 0 or 1.
\<close>

type_synonym BN = nat
type_synonym Balance = nat
type_synonym BlockNumber = nat
type_synonym Hash = string

definition BN_ZERO :: BN where
  "BN_ZERO = 0"

definition bn_add :: "BN \<Rightarrow> BN \<Rightarrow> BN" where
  "bn_add a b = a + b"

definition bn_divn :: "BN \<Rightarrow> nat \<Rightarrow> BN" where
  "bn_divn a n = a div n"

definition bn_cmp :: "BN \<Rightarrow> BN \<Rightarrow> int" where
  "bn_cmp a b = (if a < b then - 1 else if a = b then 0 else 1)"

text \<open>
  The chain's \<^verbatim>\<open>Option<T>\<close> wrapper, with the three members the source calls.
  \<^verbatim>\<open>unwrap()\<close> throws on an empty option. A nullable \<^verbatim>\<open>T | null\<close> of the source is
  a HOL \<open>option\<close>, with \<open>None\<close> for \<^verbatim>\<open>null\<close>.
\<close>

datatype 'a Option = OptionNone | OptionSome 'a

datatype error = UnwrapNone | TypeError | IllTyped | BadReference

fun isSome :: "'a Option \<Rightarrow> bool" where
  "isSome OptionNone = False"
| "isSome (OptionSome x) = True"

fun unwrap :: "'a Option \<Rightarrow> error + 'a" where
  "unwrap OptionNone = Inl UnwrapNone"
| "unwrap (OptionSome x) = Inr x"

fun unwrapOr :: "'a Option \<Rightarrow> 'a option \<Rightarrow> 'a option" where
  "unwrapOr OptionNone d = d"
| "unwrapOr (OptionSome x) d = Some x"

subsection \<open>Tip records\<close>

text \<open>
  The union \<^verbatim>\<open>OpenTip | OpenTipTo225\<close>. Both shapes have \<^verbatim>\<open>reason\<close>, \<^verbatim>\<open>who\<close>,
  \<^verbatim>\<open>closes\<close> and \<^verbatim>\<open>tips\<close>; the current shape has an account \<^verbatim>\<open>finder\<close>, a
  \<^verbatim>\<open>deposit\<close> and the flag \<^verbatim>\<open>findersFee\<close>; the legacy shape has an optional
  \<^verbatim>\<open>finder\<close> pair. The constructor arguments are, in order:
  \<^verbatim>\<open>OpenTip reason who finder deposit closes tips findersFee\<close> and
  \<^verbatim>\<open>OpenTipTo225 reason who finder closes tips\<close>.
  The type parameter is the representation of the \<^verbatim>\<open>tips\<close> array: the list of
  contributions itself, or a reference to it in a store.
\<close>

datatype 't Tip =
    OpenTip (reason: Hash) (who: AccountId) AccountId Balance
      (closes: "BlockNumber Option") (tips: 't) bool
  | OpenTipTo225 (reason: Hash) (who: AccountId) "(AccountId \<times> Balance) Option"
      (closes: "BlockNumber Option") (tips: 't)

type_synonym Contribution = "AccountId \<times> Balance"

record TipState =
  closesAt :: "BlockNumber option"
  deposit :: "Balance option"
  finder :: "AccountId option"
  isFinder :: bool
  isTipped :: bool
  isTipper :: bool
  median :: BN

subsection \<open>JavaScript values and arrays\<close>

text \<open>
  Reading \<^verbatim>\<open>findersFee\<close> from a tip gives the flag object on the current shape and
  \<^verbatim>\<open>undefined\<close> on the legacy shape. The flag is an instance of the codec class
  \<^verbatim>\<open>bool\<close>, which extends JavaScript's \<^verbatim>\<open>Boolean\<close>: an object, and every object is
  truthy, whatever boolean it wraps.
\<close>

datatype property = Undefined | BooleanObject bool

fun truthy :: "property \<Rightarrow> bool" where
  "truthy Undefined = False"
| "truthy (BooleanObject b) = True"

fun findersFee_of :: "'t Tip \<Rightarrow> property" where
  "findersFee_of (OpenTip r w f d c t fee) = BooleanObject fee"
| "findersFee_of (OpenTipTo225 r w fo c t) = Undefined"

text \<open>
  \<^verbatim>\<open>xs[i]\<close>: an index outside the array reads \<^verbatim>\<open>undefined\<close>, here \<open>None\<close>.
\<close>

definition array_get :: "'a list \<Rightarrow> int \<Rightarrow> 'a option" where
  "array_get xs i = (if 0 \<le> i \<and> i < int (length xs) then Some (xs ! nat i) else None)"

text \<open>
  \<^verbatim>\<open>xs.includes(x)\<close> and \<^verbatim>\<open>xs.some(p)\<close> scan the array from the front; on strings
  \<^verbatim>\<open>includes\<close> compares contents.
\<close>

fun array_includes :: "'a list \<Rightarrow> 'a \<Rightarrow> bool" where
  "array_includes [] x = False"
| "array_includes (y # ys) x = (y = x \<or> array_includes ys x)"

fun array_some :: "('a \<Rightarrow> bool) \<Rightarrow> 'a list \<Rightarrow> bool" where
  "array_some p [] = False"
| "array_some p (x # xs) = (p x \<or> array_some p xs)"

text \<open>
  \<^verbatim>\<open>xs.sort(c)\<close> with a comparator \<open>c\<close> returning a negative number, zero or a
  positive number: a stable insertion sort, an element going before the first one it
  does not compare greater than.
\<close>

fun insert_by :: "('a \<Rightarrow> 'a \<Rightarrow> int) \<Rightarrow> 'a \<Rightarrow> 'a list \<Rightarrow> 'a list" where
  "insert_by c x [] = [x]"
| "insert_by c x (y # ys) = (if c x y \<le> 0 then x # y # ys else y # insert_by c x ys)"

definition array_sort :: "('a \<Rightarrow> 'a \<Rightarrow> int) \<Rightarrow> 'a list \<Rightarrow> 'a list" where
  "array_sort c xs = foldr (insert_by c) xs []"

subsection \<open>isCurrentTip\<close>

text \<open>\<^verbatim>\<open>return !!(tip as OpenTip)?.findersFee;\<close>\<close>

definition isCurrentTip :: "'t Tip \<Rightarrow> bool" where
  "isCurrentTip tip = truthy (findersFee_of tip)"

subsection \<open>extractTipState\<close>

text \<open>
  Lines 48 to 59, finder and deposit. Each branch reads the fields its shape test
  promises. Where the test and the shape disagree the source would not throw: in the
  first branch \<^verbatim>\<open>tip.finder\<close> of a legacy tip is an \<^verbatim>\<open>Option\<close> and
  \<^verbatim>\<open>tip.deposit\<close> is \<^verbatim>\<open>undefined\<close>, values outside the declared types
  (\<open>IllTyped\<close>); in the second \<^verbatim>\<open>tip.finder.isSome\<close> of a current tip is
  \<^verbatim>\<open>undefined\<close>, which is falsy, and both stay \<^verbatim>\<open>null\<close>.
\<close>

definition extractFinder :: "'t Tip \<Rightarrow> error + (AccountId option \<times> Balance option)" where
  "extractFinder tip =
     (if isCurrentTip tip then
        (case tip of
           OpenTip r w f d c t fee \<Rightarrow> Inr (Some f, Some d)
         | OpenTipTo225 r w fo c t \<Rightarrow> Inl IllTyped)
      else
        (case tip of
           OpenTipTo225 r w fo c t \<Rightarrow>
             (if isSome fo then
                (case unwrap fo of
                   Inl e \<Rightarrow> Inl e
                 | Inr finderInfo \<Rightarrow> Inr (Some (fst finderInfo), Some (snd finderInfo)))
              else Inr (None, None))
         | OpenTip r w f d c t fee \<Rightarrow> Inr (None, None)))"

text \<open>
  Line 61: \<^verbatim>\<open>tip.tips.map(([, value]) => value).sort((a, b) => a.cmp(b))\<close>.
\<close>

definition tipValues :: "Contribution list \<Rightarrow> BN list" where
  "tipValues ts = array_sort bn_cmp (map (\<lambda>(address, v). v) ts)"

text \<open>
  Lines 62 to 67. \<^verbatim>\<open>Math.floor(values.length / 2)\<close> is exact on array lengths.
  A method call on an \<^verbatim>\<open>undefined\<close> element, or \<^verbatim>\<open>add\<close> of one, throws a
  \<^verbatim>\<open>TypeError\<close>; an \<^verbatim>\<open>undefined\<close> middle element is not a \<^verbatim>\<open>BN\<close>.
\<close>

definition medianOf :: "BN list \<Rightarrow> error + BN" where
  "medianOf vals =
     (let midIndex = int (length vals) div 2 in
      if length vals \<noteq> 0 then
        if length vals mod 2 \<noteq> 0 then
          (case array_get vals midIndex of
             None \<Rightarrow> Inl IllTyped
           | Some v \<Rightarrow> Inr v)
        else
          (case array_get vals (midIndex - 1) of
             None \<Rightarrow> Inl TypeError
           | Some a \<Rightarrow>
               (case array_get vals midIndex of
                  None \<Rightarrow> Inl TypeError
                | Some b \<Rightarrow> Inr (bn_divn (bn_add a b) 2)))
      else Inr BN_ZERO)"

text \<open>
  The whole function, on a tip whose \<^verbatim>\<open>tips\<close> is the list of contributions.
  \<^verbatim>\<open>!!finder && allAccounts.includes(finder.toString())\<close> does not call
  \<^verbatim>\<open>toString\<close> on \<^verbatim>\<open>null\<close>.
\<close>

definition extractTipState :: "Contribution list Tip \<Rightarrow> string list \<Rightarrow> error + TipState" where
  "extractTipState tip allAccounts =
     (let closesAt' = unwrapOr (closes tip) None in
      case extractFinder tip of
        Inl e \<Rightarrow> Inl e
      | Inr (finder', deposit') \<Rightarrow>
          (let vals = tipValues (tips tip) in
           case medianOf vals of
             Inl e \<Rightarrow> Inl e
           | Inr median' \<Rightarrow>
               Inr \<lparr> closesAt = closesAt',
                     deposit = deposit',
                     finder = finder',
                     isFinder = (case finder' of
                                   None \<Rightarrow> False
                                 | Some f \<Rightarrow> array_includes allAccounts (toString f)),
                     isTipped = (length vals \<noteq> 0),
                     isTipper = array_some (\<lambda>(address, v). array_includes allAccounts (toString address))
                                  (tips tip),
                     median = median' \<rparr>))"

subsection \<open>extractTipState on a store of arrays\<close>

text \<open>
  \<^verbatim>\<open>sort\<close> sorts an array in place, so what the function leaves behind depends on
  which array it sorts. Here arrays live in a store and the tip's \<^verbatim>\<open>tips\<close> and
  \<^verbatim>\<open>allAccounts\<close> are references into it. \<^verbatim>\<open>map\<close> allocates a new array;
  \<^verbatim>\<open>sort\<close> overwrites the array it is called on and returns the same reference;
  \<^verbatim>\<open>some\<close>, \<^verbatim>\<open>includes\<close>, \<^verbatim>\<open>length\<close> and indexing only read. A reference to
  no array, or to one of another element type, is \<open>BadReference\<close>.
\<close>

type_synonym ref = nat

datatype array = Contributions "Contribution list" | Amounts "BN list" | Strings "string list"

type_synonym store = "array list"

definition lookup :: "store \<Rightarrow> ref \<Rightarrow> array option" where
  "lookup s r = (if r < length s then Some (s ! r) else None)"

definition alloc :: "store \<Rightarrow> array \<Rightarrow> ref \<times> store" where
  "alloc s a = (length s, s @ [a])"

definition read_contributions :: "store \<Rightarrow> ref \<Rightarrow> error + Contribution list" where
  "read_contributions s r =
     (case lookup s r of Some (Contributions ts) \<Rightarrow> Inr ts | _ \<Rightarrow> Inl BadReference)"

definition read_amounts :: "store \<Rightarrow> ref \<Rightarrow> error + BN list" where
  "read_amounts s r =
     (case lookup s r of Some (Amounts vs) \<Rightarrow> Inr vs | _ \<Rightarrow> Inl BadReference)"

definition read_strings :: "store \<Rightarrow> ref \<Rightarrow> error + string list" where
  "read_strings s r =
     (case lookup s r of Some (Strings xs) \<Rightarrow> Inr xs | _ \<Rightarrow> Inl BadReference)"

text \<open>\<^verbatim>\<open>tip.tips.map(([, value]) => value)\<close>\<close>

definition map_amounts :: "store \<Rightarrow> ref \<Rightarrow> error + (ref \<times> store)" where
  "map_amounts s r =
     (case read_contributions s r of
        Inl e \<Rightarrow> Inl e
      | Inr ts \<Rightarrow> Inr (alloc s (Amounts (map (\<lambda>(address, v). v) ts))))"

text \<open>\<^verbatim>\<open>.sort((a, b) => a.cmp(b))\<close>\<close>

definition sort_amounts :: "store \<Rightarrow> ref \<Rightarrow> error + (ref \<times> store)" where
  "sort_amounts s r =
     (case read_amounts s r of
        Inl e \<Rightarrow> Inl e
      | Inr vs \<Rightarrow> Inr (r, s[r := Amounts (array_sort bn_cmp vs)]))"

definition extractTipState_store :: "store \<Rightarrow> ref Tip \<Rightarrow> ref \<Rightarrow> error + (TipState \<times> store)" where
  "extractTipState_store s tip allAccounts =
     (let closesAt' = unwrapOr (closes tip) None in
      case extractFinder tip of
        Inl e \<Rightarrow> Inl e
      | Inr (finder', deposit') \<Rightarrow>
      (case map_amounts s (tips tip) of
        Inl e \<Rightarrow> Inl e
      | Inr (mapped, s1) \<Rightarrow>
      (case sort_amounts s1 mapped of
        Inl e \<Rightarrow> Inl e
      | Inr (sorted_ref, s2) \<Rightarrow>
      (case read_amounts s2 sorted_ref of
        Inl e \<Rightarrow> Inl e
      | Inr vals \<Rightarrow>
      (case medianOf vals of
        Inl e \<Rightarrow> Inl e
      | Inr median' \<Rightarrow>
      (case read_strings s2 allAccounts of
        Inl e \<Rightarrow> Inl e
      | Inr accounts \<Rightarrow>
      (case read_contributions s2 (tips tip) of
        Inl e \<Rightarrow> Inl e
      | Inr ts \<Rightarrow>
          Inr (\<lparr> closesAt = closesAt',
                 deposit = deposit',
                 finder = finder',
                 isFinder = (case finder' of
                               None \<Rightarrow> False
                             | Some f \<Rightarrow> array_includes accounts (toString f)),
                 isTipped = (length vals \<noteq> 0),
                 isTipper = array_some (\<lambda>(address, v). array_includes accounts (toString address)) ts,
                 median = median' \<rparr>, s2))))))))"

subsection \<open>The reference median of the specification\<close>

text \<open>
  The median as the specification words it: with the amounts sorted ascending into
  \<open>v\<close> of length \<open>n\<close>, the element \<open>v[floor(n/2)]\<close> when \<open>n\<close> is odd and
  \<open>floor((v[n/2 - 1] + v[n/2]) / 2)\<close> when \<open>n\<close> is even.
\<close>

definition standard_median :: "nat multiset \<Rightarrow> nat" where
  "standard_median M =
     (let v = sorted_list_of_multiset M; n = length v in
      if odd n then v ! (n div 2) else (v ! (n div 2 - 1) + v ! (n div 2)) div 2)"

section \<open>Properties\<close>

subsection \<open>Sorting and indexing\<close>

text \<open>
  With \<^verbatim>\<open>cmp\<close> as comparator the sort is the sort of the natural numbers, and any
  other algorithm that returns a sorted rearrangement returns the same array.
\<close>

lemma insert_by_bn_cmp: "insert_by bn_cmp x ys = insort x ys"
  by (induction ys) (auto simp: bn_cmp_def)

lemma array_sort_bn_cmp: "array_sort bn_cmp xs = sort xs"
  by (induction xs) (simp_all add: array_sort_def insert_by_bn_cmp)

lemma array_sort_unique:
  "sorted ys \<Longrightarrow> mset ys = mset xs \<Longrightarrow> array_sort bn_cmp xs = ys"
  by (simp add: array_sort_bn_cmp properties_for_sort)

lemma tipValues_sort: "tipValues ts = sort (map snd ts)"
  by (simp add: tipValues_def array_sort_bn_cmp case_prod_unfold)

lemma length_tipValues: "length (tipValues ts) = length ts"
  by (simp add: tipValues_sort)

lemma array_get_in: "i < length xs \<Longrightarrow> array_get xs (int i) = Some (xs ! i)"
  by (simp add: array_get_def)

subsection \<open>The median\<close>

lemma medianOf_empty: "medianOf [] = Inr 0"
  by (simp add: medianOf_def BN_ZERO_def)

lemma medianOf_nonempty:
  assumes "vals \<noteq> []"
  shows "medianOf vals =
     Inr (if odd (length vals) then vals ! (length vals div 2)
          else (vals ! (length vals div 2 - 1) + vals ! (length vals div 2)) div 2)"
proof -
  let ?n = "length vals"
  have n: "0 < ?n" using assms by simp
  have mid: "int ?n div 2 = int (?n div 2)" by simp
  have lt: "?n div 2 < ?n" using n by simp
  show ?thesis
  proof (cases "odd ?n")
    case True
    then show ?thesis
      using n lt by (simp add: medianOf_def mid array_get_in odd_iff_mod_2_eq_one)
  next
    case False
    then have two: "2 \<le> ?n" using n by presburger
    then have pos: "0 < ?n div 2" by simp
    have m1: "int (?n div 2) - 1 = int (?n div 2 - 1)" using pos by simp
    have lt1: "?n div 2 - 1 < ?n" using lt by arith
    from False show ?thesis
      using n lt lt1
      by (simp add: medianOf_def mid m1 array_get_in bn_add_def bn_divn_def)
  qed
qed

lemma medianOf_total: "\<exists>m. medianOf vals = Inr m"
  by (cases "vals = []") (simp_all add: medianOf_empty medianOf_nonempty)

subsection \<open>Finder and deposit\<close>

lemma extractFinder_eq:
  "extractFinder tip =
     Inr (case tip of
            OpenTip r w f d c t fee \<Rightarrow> (Some f, Some d)
          | OpenTipTo225 r w fo c t \<Rightarrow>
              (case fo of
                 OptionNone \<Rightarrow> (None, None)
               | OptionSome p \<Rightarrow> (Some (fst p), Some (snd p))))"
  by (cases tip) (auto simp: extractFinder_def isCurrentTip_def split: Option.splits)

lemma extractFinder_total: "\<exists>f d. extractFinder tip = Inr (f, d)"
  by (simp add: extractFinder_eq split: Tip.splits Option.splits)

subsection \<open>The returned state\<close>

lemma extractTipState_result:
  assumes "extractFinder tip = Inr (f, d)" and "medianOf (tipValues (tips tip)) = Inr m"
  shows "extractTipState tip allAccounts =
     Inr \<lparr> closesAt = unwrapOr (closes tip) None, deposit = d, finder = f,
           isFinder = (case f of None \<Rightarrow> False | Some x \<Rightarrow> array_includes allAccounts (toString x)),
           isTipped = (length (tipValues (tips tip)) \<noteq> 0),
           isTipper = array_some (\<lambda>(address, v). array_includes allAccounts (toString address)) (tips tip),
           median = m \<rparr>"
  using assms by (simp add: extractTipState_def)

lemma extractTipState_total:
  "\<exists>f d m. extractFinder tip = Inr (f, d) \<and> medianOf (tipValues (tips tip)) = Inr m \<and>
     extractTipState tip allAccounts =
     Inr \<lparr> closesAt = unwrapOr (closes tip) None, deposit = d, finder = f,
           isFinder = (case f of None \<Rightarrow> False | Some x \<Rightarrow> array_includes allAccounts (toString x)),
           isTipped = (length (tipValues (tips tip)) \<noteq> 0),
           isTipper = array_some (\<lambda>(address, v). array_includes allAccounts (toString address)) (tips tip),
           median = m \<rparr>"
proof -
  obtain f d where fd: "extractFinder tip = Inr (f, d)"
    using extractFinder_total by blast
  obtain m where m: "medianOf (tipValues (tips tip)) = Inr m"
    using medianOf_total by blast
  show ?thesis
    using fd m extractTipState_result [OF fd m] by blast
qed

lemma standard_median_mset:
  "standard_median (mset xs) =
     (if odd (length xs) then sort xs ! (length xs div 2)
      else (sort xs ! (length xs div 2 - 1) + sort xs ! (length xs div 2)) div 2)"
  by (simp add: standard_median_def Let_def)

lemma median_of_tips:
  assumes "ts \<noteq> []"
  shows "medianOf (tipValues ts) = Inr (standard_median (mset (map snd ts)))"
proof -
  have ne: "tipValues ts \<noteq> []"
    using assms length_tipValues [of ts] by auto
  show ?thesis
    using medianOf_nonempty [OF ne] standard_median_mset [of "map snd ts"]
    by (simp add: tipValues_sort del: mset_map)
qed

subsection \<open>Membership and indices\<close>

lemma array_includes_iff: "array_includes xs x \<longleftrightarrow> x \<in> set xs"
  by (induction xs) auto

lemma array_some_iff: "array_some p xs \<longleftrightarrow> (\<exists>x. x \<in> set xs \<and> p x)"
  by (induction xs) auto

lemma mid_in_bounds:
  assumes "vals \<noteq> []"
  shows "array_get vals (int (length vals) div 2) \<noteq> None"
proof -
  have "0 < int (length vals)" using assms by simp
  then have "0 \<le> int (length vals) div 2 \<and> int (length vals) div 2 < int (length vals)"
    by presburger
  then show ?thesis by (simp add: array_get_def)
qed

lemma mid_pred_in_bounds:
  assumes "vals \<noteq> []" and "even (length vals)"
  shows "array_get vals (int (length vals) div 2 - 1) \<noteq> None"
proof -
  have "0 < int (length vals)" using assms by simp
  moreover have "even (int (length vals))" using assms by simp
  ultimately have "0 \<le> int (length vals) div 2 - 1 \<and> int (length vals) div 2 - 1 < int (length vals)"
    by presburger
  then show ?thesis by (simp add: array_get_def)
qed

subsection \<open>The store\<close>

lemma lookup_Some: "lookup s r = Some a \<longleftrightarrow> r < length s \<and> s ! r = a"
  by (auto simp: lookup_def)

lemma lookup_append_old: "r < length s \<Longrightarrow> lookup (s @ [a]) r = Some (s ! r)"
  by (simp add: lookup_def nth_append)

lemma lookup_append_new: "lookup (s @ [a]) (length s) = Some a"
  by (simp add: lookup_def)

lemma map_amounts_eq:
  assumes "lookup s r = Some (Contributions ts)"
  shows "map_amounts s r = Inr (length s, s @ [Amounts (map (\<lambda>(address, v). v) ts)])"
  using assms by (simp add: map_amounts_def read_contributions_def alloc_def)

lemma sort_amounts_new:
  "sort_amounts (s @ [Amounts vs]) (length s) = Inr (length s, s @ [Amounts (array_sort bn_cmp vs)])"
  by (simp add: sort_amounts_def read_amounts_def lookup_append_new)

lemma extractFinder_map_Tip: "extractFinder (map_Tip g tip) = extractFinder tip"
  by (cases tip) (simp_all add: extractFinder_eq)

lemma closes_map_Tip: "closes (map_Tip g tip) = closes tip"
  by (cases tip) simp_all

lemma tips_map_Tip: "tips (map_Tip g tip) = g (tips tip)"
  by (cases tip) simp_all

lemma extractTipState_store_eq:
  assumes t: "lookup s (tips tip) = Some (Contributions ts)"
    and a: "lookup s allAccounts = Some (Strings accounts)"
  shows "\<exists>st. extractTipState (map_Tip (\<lambda>r. ts) tip) accounts = Inr st \<and>
              extractTipState_store s tip allAccounts = Inr (st, s @ [Amounts (tipValues ts)])"
proof -
  obtain f d m where fd: "extractFinder tip = Inr (f, d)"
    and m: "medianOf (tipValues ts) = Inr m"
    using extractFinder_total medianOf_total by blast
  have fd': "extractFinder (map_Tip (\<lambda>r. ts) tip) = Inr (f, d)"
    using fd by (simp add: extractFinder_map_Tip)
  have m': "medianOf (tipValues (tips (map_Tip (\<lambda>r. ts) tip))) = Inr m"
    using m by (simp add: tips_map_Tip)
  from t have tl: "tips tip < length s" and tv: "s ! tips tip = Contributions ts"
    by (simp_all add: lookup_Some)
  from a have al: "allAccounts < length s" and av: "s ! allAccounts = Strings accounts"
    by (simp_all add: lookup_Some)
  have r1: "read_amounts (s @ [Amounts (tipValues ts)]) (length s) = Inr (tipValues ts)"
    by (simp add: read_amounts_def lookup_append_new)
  have r2: "read_strings (s @ [Amounts (tipValues ts)]) allAccounts = Inr accounts"
    using al av by (simp add: read_strings_def lookup_append_old)
  have r3: "read_contributions (s @ [Amounts (tipValues ts)]) (tips tip) = Inr ts"
    using tl tv by (simp add: read_contributions_def lookup_append_old)
  have store: "extractTipState_store s tip allAccounts =
      Inr (\<lparr> closesAt = unwrapOr (closes tip) None, deposit = d, finder = f,
           isFinder = (case f of None \<Rightarrow> False | Some x \<Rightarrow> array_includes accounts (toString x)),
           isTipped = (length (tipValues ts) \<noteq> 0),
           isTipper = array_some (\<lambda>(address, v). array_includes accounts (toString address)) ts,
           median = m \<rparr>, s @ [Amounts (tipValues ts)])"
    unfolding extractTipState_store_def
    by (simp add: fd map_amounts_eq [OF t] sort_amounts_new tipValues_def [symmetric] r1 r2 r3 m)
  show ?thesis
    using extractTipState_result [OF fd' m', of accounts] store
    by (simp add: closes_map_Tip tips_map_Tip)
qed

text \<open>The sort is in place: applied to an array of the store, it changes that array.\<close>

lemma sort_amounts_in_place:
  "sort_amounts [Amounts [3, 1, 2]] 0 = Inr (0, [Amounts [1, 2, 3]])"
  by (simp add: sort_amounts_def read_amounts_def lookup_def array_sort_def bn_cmp_def)

section \<open>The claims\<close>

text \<open>
  C1. For every tip whose contribution sequence is not empty, the call returns a state,
  and its median is the standard median of the multiset of contribution amounts, in
  exact arithmetic: with the amounts sorted ascending into \<open>v\<close> of length \<open>n\<close>, it is
  \<open>v[floor(n/2)]\<close> for odd \<open>n\<close> and \<open>floor((v[n/2 - 1] + v[n/2]) / 2)\<close> for even \<open>n\<close>.
\<close>

theorem median_is_standard_median:
  assumes "tips tip \<noteq> []"
  shows "\<exists>st. extractTipState tip allAccounts = Inr st \<and>
               median st = standard_median (mset (map snd (tips tip)))"
proof -
  obtain f d where fd: "extractFinder tip = Inr (f, d)"
    using extractFinder_total by blast
  show ?thesis
    using extractTipState_result [OF fd median_of_tips [OF assms]] by simp
qed

theorem median_is_standard_median_witness:
  "tips (OpenTipTo225 ''reason'' (AccountId ''W'') OptionNone OptionNone
           [(AccountId ''C'', 30), (AccountId ''A'', 10), (AccountId ''B'', 20), (AccountId ''D'', 41)]) \<noteq> []
   \<and> (\<exists>st. extractTipState (OpenTipTo225 ''reason'' (AccountId ''W'') OptionNone OptionNone
           [(AccountId ''C'', 30), (AccountId ''A'', 10), (AccountId ''B'', 20), (AccountId ''D'', 41)]) [] = Inr st
        \<and> median st = 25)"
proof -
  have sm: "standard_median {#30, 10, 20, 41::nat#} = 25"
    using standard_median_mset [of "[30, 10, 20, 41]"] by simp
  show ?thesis
    using median_is_standard_median [of "OpenTipTo225 ''reason'' (AccountId ''W'') OptionNone OptionNone
           [(AccountId ''C'', 30), (AccountId ''A'', 10), (AccountId ''B'', 20), (AccountId ''D'', 41)]" "[]"]
    by (simp add: sm)
qed

text \<open>
  C2. The call returns a state whose finder and deposit are: the dedicated fields of a
  tip of the current shape; the two components of the unwrapped pair of a legacy tip
  whose optional finder is present; both \<^verbatim>\<open>null\<close> for a legacy tip whose optional
  finder is absent.
\<close>

theorem finder_and_deposit:
  "(\<exists>st. extractTipState (OpenTip r w f d c ts fee) allAccounts = Inr st \<and>
          finder st = Some f \<and> deposit st = Some d) \<and>
   (\<exists>st. extractTipState (OpenTipTo225 r w (OptionSome (f, d)) c ts) allAccounts = Inr st \<and>
          finder st = Some f \<and> deposit st = Some d) \<and>
   (\<exists>st. extractTipState (OpenTipTo225 r w OptionNone c ts) allAccounts = Inr st \<and>
          finder st = None \<and> deposit st = None)"
proof (intro conjI)
  show "\<exists>st. extractTipState (OpenTip r w f d c ts fee) allAccounts = Inr st \<and>
          finder st = Some f \<and> deposit st = Some d"
    using extractTipState_total [of "OpenTip r w f d c ts fee" allAccounts]
    by (auto simp: extractFinder_eq)
  show "\<exists>st. extractTipState (OpenTipTo225 r w (OptionSome (f, d)) c ts) allAccounts = Inr st \<and>
          finder st = Some f \<and> deposit st = Some d"
    using extractTipState_total [of "OpenTipTo225 r w (OptionSome (f, d)) c ts" allAccounts]
    by (auto simp: extractFinder_eq)
  show "\<exists>st. extractTipState (OpenTipTo225 r w OptionNone c ts) allAccounts = Inr st \<and>
          finder st = None \<and> deposit st = None"
    using extractTipState_total [of "OpenTipTo225 r w OptionNone c ts" allAccounts]
    by (auto simp: extractFinder_eq)
qed

theorem finder_and_deposit_witness:
  "\<exists>st. extractTipState (OpenTipTo225 ''reason'' (AccountId ''W'')
            (OptionSome (AccountId ''F'', 7)) OptionNone []) [''F''] = Inr st \<and>
        finder st = Some (AccountId ''F'') \<and> deposit st = Some 7"
  using finder_and_deposit [of "''reason''" "AccountId ''W''" "AccountId ''F''" 7 OptionNone "[]" True "[''F'']"]
  by simp

text \<open>
  C3. In the returned state \<open>isFinder\<close> holds exactly when the extracted finder is not
  \<^verbatim>\<open>null\<close> and its address string is one of the local accounts; with a \<^verbatim>\<open>null\<close>
  finder it is false.
\<close>

theorem isFinder_iff:
  "\<exists>st. extractTipState tip allAccounts = Inr st \<and>
        (isFinder st \<longleftrightarrow> (\<exists>f. finder st = Some f \<and> toString f \<in> set allAccounts)) \<and>
        (finder st = None \<longrightarrow> \<not> isFinder st)"
  using extractTipState_total [of tip allAccounts]
  by (auto simp: array_includes_iff split: option.splits)

theorem isFinder_iff_witness:
  "(\<exists>st. extractTipState (OpenTipTo225 ''reason'' (AccountId ''W'') OptionNone OptionNone
             [(AccountId ''A'', 10)]) [''A'', ''F''] = Inr st \<and> finder st = None \<and> \<not> isFinder st) \<and>
   (\<exists>st. extractTipState (OpenTip ''reason'' (AccountId ''W'') (AccountId ''F'') 7 OptionNone
             [(AccountId ''A'', 10)] False) [''A'', ''F''] = Inr st \<and> isFinder st) \<and>
   (\<exists>st. extractTipState (OpenTip ''reason'' (AccountId ''W'') (AccountId ''F'') 7 OptionNone
             [(AccountId ''A'', 10)] False) [''A'', ''B''] = Inr st \<and> \<not> isFinder st)"
proof (intro conjI)
  show "\<exists>st. extractTipState (OpenTipTo225 ''reason'' (AccountId ''W'') OptionNone OptionNone
             [(AccountId ''A'', 10)]) [''A'', ''F''] = Inr st \<and> finder st = None \<and> \<not> isFinder st"
    using isFinder_iff [of "OpenTipTo225 ''reason'' (AccountId ''W'') OptionNone OptionNone
             [(AccountId ''A'', 10)]" "[''A'', ''F'']"]
      extractTipState_total [of "OpenTipTo225 ''reason'' (AccountId ''W'') OptionNone OptionNone
             [(AccountId ''A'', 10)]" "[''A'', ''F'']"]
    by (auto simp: extractFinder_eq)
  show "\<exists>st. extractTipState (OpenTip ''reason'' (AccountId ''W'') (AccountId ''F'') 7 OptionNone
             [(AccountId ''A'', 10)] False) [''A'', ''F''] = Inr st \<and> isFinder st"
    using isFinder_iff [of "OpenTip ''reason'' (AccountId ''W'') (AccountId ''F'') 7 OptionNone
             [(AccountId ''A'', 10)] False" "[''A'', ''F'']"]
      extractTipState_total [of "OpenTip ''reason'' (AccountId ''W'') (AccountId ''F'') 7 OptionNone
             [(AccountId ''A'', 10)] False" "[''A'', ''F'']"]
    by (auto simp: extractFinder_eq)
  show "\<exists>st. extractTipState (OpenTip ''reason'' (AccountId ''W'') (AccountId ''F'') 7 OptionNone
             [(AccountId ''A'', 10)] False) [''A'', ''B''] = Inr st \<and> \<not> isFinder st"
    using isFinder_iff [of "OpenTip ''reason'' (AccountId ''W'') (AccountId ''F'') 7 OptionNone
             [(AccountId ''A'', 10)] False" "[''A'', ''B'']"]
      extractTipState_total [of "OpenTip ''reason'' (AccountId ''W'') (AccountId ''F'') 7 OptionNone
             [(AccountId ''A'', 10)] False" "[''A'', ''B'']"]
    by (auto simp: extractFinder_eq)
qed

text \<open>
  C4. In the returned state \<open>isTipper\<close> holds exactly when some contribution of the tip
  has an account whose address string is one of the local accounts.
\<close>

theorem isTipper_iff:
  "\<exists>st. extractTipState tip allAccounts = Inr st \<and>
        (isTipper st \<longleftrightarrow>
           (\<exists>address v. (address, v) \<in> set (tips tip) \<and> toString address \<in> set allAccounts))"
  using extractTipState_total [of tip allAccounts]
  by (auto simp: array_some_iff array_includes_iff)

theorem isTipper_iff_witness:
  "(\<exists>st. extractTipState (OpenTipTo225 ''reason'' (AccountId ''W'') OptionNone OptionNone
             [(AccountId ''A'', 10), (AccountId ''B'', 30)]) [''X'', ''B''] = Inr st \<and> isTipper st) \<and>
   (\<exists>st. extractTipState (OpenTipTo225 ''reason'' (AccountId ''W'') OptionNone OptionNone
             [(AccountId ''A'', 10), (AccountId ''B'', 30)]) [''X'', ''Y''] = Inr st \<and> \<not> isTipper st)"
  using isTipper_iff [of "OpenTipTo225 ''reason'' (AccountId ''W'') OptionNone OptionNone
             [(AccountId ''A'', 10), (AccountId ''B'', 30)]" "[''X'', ''B'']"]
    isTipper_iff [of "OpenTipTo225 ''reason'' (AccountId ''W'') OptionNone OptionNone
             [(AccountId ''A'', 10), (AccountId ''B'', 30)]" "[''X'', ''Y'']"]
  by auto

text \<open>
  C5. In the returned state \<open>isTipped\<close> holds exactly when the contribution sequence is
  not empty, and the median of an empty contribution sequence is 0.
\<close>

theorem isTipped_iff_and_empty_median:
  "\<exists>st. extractTipState tip allAccounts = Inr st \<and>
        (isTipped st \<longleftrightarrow> tips tip \<noteq> []) \<and>
        (tips tip = [] \<longrightarrow> median st = 0)"
proof -
  obtain f d m where fd: "extractFinder tip = Inr (f, d)"
    and m: "medianOf (tipValues (tips tip)) = Inr m"
    using extractTipState_total [of tip allAccounts] by blast
  have "tips tip = [] \<Longrightarrow> m = 0"
    using m by (simp add: tipValues_sort medianOf_empty)
  then show ?thesis
    using extractTipState_result [OF fd m, of allAccounts]
    by (auto simp: length_tipValues)
qed

theorem isTipped_iff_and_empty_median_witness:
  "tips (OpenTipTo225 ''reason'' (AccountId ''W'') OptionNone OptionNone []) = [] \<and>
   (\<exists>st. extractTipState (OpenTipTo225 ''reason'' (AccountId ''W'') OptionNone OptionNone []) [] = Inr st \<and>
         \<not> isTipped st \<and> median st = 0 \<and> \<not> isFinder st \<and> \<not> isTipper st)"
  using isTipped_iff_and_empty_median [of "OpenTipTo225 ''reason'' (AccountId ''W'') OptionNone OptionNone []" "[]"]
    extractTipState_total [of "OpenTipTo225 ''reason'' (AccountId ''W'') OptionNone OptionNone []" "[]"]
  by (auto simp: extractFinder_eq)

text \<open>
  C6. The median depends only on the multiset of contribution amounts: two tips whose
  amounts form the same multiset (a permutation of the contributions, other contributor
  accounts, any other field, any local accounts) get the same median.
\<close>

theorem median_depends_on_amounts_only:
  assumes "mset (map snd (tips tip)) = mset (map snd (tips tip'))"
  shows "\<exists>st st'. extractTipState tip allAccounts = Inr st \<and>
                   extractTipState tip' allAccounts' = Inr st' \<and>
                   median st = median st'"
proof -
  have "sort (map snd (tips tip)) = sort (map snd (tips tip'))"
    using assms by (metis sorted_list_of_multiset_mset)
  then have eq: "tipValues (tips tip) = tipValues (tips tip')"
    by (simp add: tipValues_sort)
  obtain f d m where fd: "extractFinder tip = Inr (f, d)"
    and m: "medianOf (tipValues (tips tip)) = Inr m"
    using extractTipState_total [of tip allAccounts] by blast
  obtain f' d' where fd': "extractFinder tip' = Inr (f', d')"
    using extractFinder_total by blast
  have m': "medianOf (tipValues (tips tip')) = Inr m"
    using m eq by simp
  show ?thesis
    using extractTipState_result [OF fd m, of allAccounts]
      extractTipState_result [OF fd' m', of allAccounts']
    by simp
qed

theorem median_depends_on_amounts_only_witness:
  "mset (map snd (tips (OpenTipTo225 ''reason'' (AccountId ''W'') OptionNone OptionNone
      [(AccountId ''A'', 10), (AccountId ''B'', 30), (AccountId ''C'', 20)]))) =
   mset (map snd (tips (OpenTip ''other'' (AccountId ''V'') (AccountId ''F'') 7 (OptionSome 99)
      [(AccountId ''X'', 20), (AccountId ''Y'', 10), (AccountId ''X'', 30)] True))) \<and>
   (\<exists>st st'. extractTipState (OpenTipTo225 ''reason'' (AccountId ''W'') OptionNone OptionNone
      [(AccountId ''A'', 10), (AccountId ''B'', 30), (AccountId ''C'', 20)]) [''A''] = Inr st \<and>
    extractTipState (OpenTip ''other'' (AccountId ''V'') (AccountId ''F'') 7 (OptionSome 99)
      [(AccountId ''X'', 20), (AccountId ''Y'', 10), (AccountId ''X'', 30)] True) [] = Inr st' \<and>
    median st = median st')"
proof -
  have eq: "mset (map snd (tips (OpenTipTo225 ''reason'' (AccountId ''W'') OptionNone OptionNone
      [(AccountId ''A'', 10), (AccountId ''B'', 30), (AccountId ''C'', 20)]))) =
   mset (map snd (tips (OpenTip ''other'' (AccountId ''V'') (AccountId ''F'') 7 (OptionSome 99)
      [(AccountId ''X'', 20), (AccountId ''Y'', 10), (AccountId ''X'', 30)] True)))"
    by (simp add: add_mset_commute)
  show ?thesis
    using eq median_depends_on_amounts_only [OF eq, of "[''A'']" "[]"] by blast
qed

text \<open>
  C7. On the store, the call reads its two arrays and writes only the array it
  allocated: every array that existed before the call is unchanged after it (the
  order of the tip's contributions too), and the returned state is the one the
  function on lists gives for the contents of the inputs, so two calls on equal tip
  records and equal account lists return equal states, wherever the arrays lie and
  whatever else the stores hold.
\<close>

theorem extractTipState_pure:
  assumes "lookup s (tips tip) = Some (Contributions ts)"
    and "lookup s allAccounts = Some (Strings accounts)"
    and "lookup s' (tips tip') = Some (Contributions ts)"
    and "lookup s' allAccounts' = Some (Strings accounts)"
    and "map_Tip (\<lambda>r. ts) tip' = map_Tip (\<lambda>r. ts) tip"
  shows "\<exists>st s1 s1'.
           extractTipState_store s tip allAccounts = Inr (st, s1) \<and>
           extractTipState_store s' tip' allAccounts' = Inr (st, s1') \<and>
           take (length s) s1 = s \<and> take (length s') s1' = s' \<and>
           extractTipState (map_Tip (\<lambda>r. ts) tip) accounts = Inr st"
  using extractTipState_store_eq [OF assms(1) assms(2)]
    extractTipState_store_eq [OF assms(3) assms(4)] assms(5)
  by auto

theorem extractTipState_pure_witness:
  "lookup [Strings [''B''], Contributions [(AccountId ''A'', 30), (AccountId ''B'', 10)]]
     (tips (OpenTipTo225 ''reason'' (AccountId ''W'') OptionNone OptionNone 1)) =
     Some (Contributions [(AccountId ''A'', 30), (AccountId ''B'', 10)]) \<and>
   lookup [Contributions [(AccountId ''A'', 30), (AccountId ''B'', 10)], Amounts [5], Strings [''B'']]
     (tips (OpenTipTo225 ''reason'' (AccountId ''W'') OptionNone OptionNone 0)) =
     Some (Contributions [(AccountId ''A'', 30), (AccountId ''B'', 10)]) \<and>
   (\<exists>st s1 s1'.
      extractTipState_store [Strings [''B''], Contributions [(AccountId ''A'', 30), (AccountId ''B'', 10)]]
        (OpenTipTo225 ''reason'' (AccountId ''W'') OptionNone OptionNone 1) 0 = Inr (st, s1) \<and>
      extractTipState_store
        [Contributions [(AccountId ''A'', 30), (AccountId ''B'', 10)], Amounts [5], Strings [''B'']]
        (OpenTipTo225 ''reason'' (AccountId ''W'') OptionNone OptionNone 0) 2 = Inr (st, s1') \<and>
      take 2 s1 = [Strings [''B''], Contributions [(AccountId ''A'', 30), (AccountId ''B'', 10)]] \<and>
      take 3 s1' =
        [Contributions [(AccountId ''A'', 30), (AccountId ''B'', 10)], Amounts [5], Strings [''B'']] \<and>
      median st = 20 \<and> isTipper st)"
proof -
  let ?ts = "[(AccountId ''A'', 30), (AccountId ''B'', 10)]"
  let ?s = "[Strings [''B''], Contributions ?ts]"
  let ?s' = "[Contributions ?ts, Amounts [5], Strings [''B'']]"
  let ?tip = "OpenTipTo225 ''reason'' (AccountId ''W'') OptionNone OptionNone (1::nat)"
  let ?tip' = "OpenTipTo225 ''reason'' (AccountId ''W'') OptionNone OptionNone (0::nat)"
  have h1: "lookup ?s (tips ?tip) = Some (Contributions ?ts)"
    by (simp add: lookup_def)
  have h2: "lookup ?s 0 = Some (Strings [''B''])"
    by (simp add: lookup_def)
  have h3: "lookup ?s' (tips ?tip') = Some (Contributions ?ts)"
    by (simp add: lookup_def)
  have h4: "lookup ?s' 2 = Some (Strings [''B''])"
    by (simp add: lookup_def)
  have h5: "map_Tip (\<lambda>r. ?ts) ?tip' = map_Tip (\<lambda>r. ?ts) ?tip"
    by simp
  have run: "extractTipState (map_Tip (\<lambda>r. ?ts) ?tip) [''B''] = Inr st \<Longrightarrow>
      median st = 20 \<and> isTipper st" for st
    by (auto simp: extractTipState_def extractFinder_eq tipValues_sort medianOf_def
        array_get_def bn_add_def bn_divn_def)
  show ?thesis
    using h1 h3 extractTipState_pure [OF h1 h2 h3 h4 h5] run
    by (auto simp: numeral_2_eq_2 numeral_3_eq_3)
qed

text \<open>
  C8. The call returns a state for every tip of either shape and every list of local
  accounts; the middle index read for a non-empty contribution sequence, and the index
  \<open>midIndex - 1\<close> read for one of even length, are inside the sorted array.
\<close>

theorem extractTipState_total_in_bounds:
  "(\<exists>st. extractTipState tip allAccounts = Inr st) \<and>
   (tips tip \<noteq> [] \<longrightarrow>
      array_get (tipValues (tips tip)) (int (length (tipValues (tips tip))) div 2) \<noteq> None) \<and>
   (tips tip \<noteq> [] \<and> even (length (tipValues (tips tip))) \<longrightarrow>
      array_get (tipValues (tips tip)) (int (length (tipValues (tips tip))) div 2 - 1) \<noteq> None)"
proof -
  have ne: "tipValues (tips tip) \<noteq> []" if "tips tip \<noteq> []"
    using that length_tipValues [of "tips tip"] by auto
  show ?thesis
    using extractTipState_total [of tip allAccounts] ne mid_in_bounds mid_pred_in_bounds
    by blast
qed

theorem extractTipState_total_in_bounds_witness:
  "(\<exists>st. extractTipState (OpenTip ''reason'' (AccountId ''W'') (AccountId ''F'') 7 OptionNone [] False) [] = Inr st) \<and>
   (\<exists>st. extractTipState (OpenTipTo225 ''reason'' (AccountId ''W'') OptionNone OptionNone
            [(AccountId ''A'', 10), (AccountId ''B'', 30)]) [] = Inr st) \<and>
   array_get (tipValues [(AccountId ''A'', 10), (AccountId ''B'', 30)]) 1 = Some 30 \<and>
   array_get (tipValues [(AccountId ''A'', 10), (AccountId ''B'', 30)]) (1 - 1) = Some 10"
  using extractTipState_total_in_bounds [of "OpenTip ''reason'' (AccountId ''W'') (AccountId ''F'') 7 OptionNone [] False" "[]"]
    extractTipState_total_in_bounds [of "OpenTipTo225 ''reason'' (AccountId ''W'') OptionNone OptionNone
            [(AccountId ''A'', 10), (AccountId ''B'', 30)]" "[]"]
  by (simp add: tipValues_sort array_get_def)

text \<open>
  C9. A tip is classified as current exactly when reading its \<^verbatim>\<open>findersFee\<close> gives a
  value and not \<^verbatim>\<open>undefined\<close>: every tip of the current shape is, whatever boolean
  the flag holds, no legacy tip is, and the extracted finder and deposit and the whole
  returned state do not depend on the flag's boolean.
\<close>

theorem isCurrentTip_iff_field_present:
  "(isCurrentTip tip \<longleftrightarrow> findersFee_of tip \<noteq> Undefined) \<and>
   isCurrentTip (OpenTip r w f d c t fee) \<and>
   \<not> isCurrentTip (OpenTipTo225 r w fo c t) \<and>
   extractFinder (OpenTip r w f d c t True) = extractFinder (OpenTip r w f d c t False) \<and>
   extractTipState (OpenTip r w f d c ts True) allAccounts =
     extractTipState (OpenTip r w f d c ts False) allAccounts"
proof -
  have "isCurrentTip tip \<longleftrightarrow> findersFee_of tip \<noteq> Undefined"
    by (cases tip) (simp_all add: isCurrentTip_def)
  moreover have "extractTipState (OpenTip r w f d c ts True) allAccounts =
     extractTipState (OpenTip r w f d c ts False) allAccounts"
    by (simp add: extractTipState_def extractFinder_eq Let_def split: sum.splits)
  ultimately show ?thesis
    by (simp add: isCurrentTip_def extractFinder_eq)
qed

theorem isCurrentTip_iff_field_present_witness:
  "isCurrentTip (OpenTip ''reason'' (AccountId ''W'') (AccountId ''F'') 7 OptionNone [(AccountId ''A'', 10::nat)] False) \<and>
   isCurrentTip (OpenTip ''reason'' (AccountId ''W'') (AccountId ''F'') 7 OptionNone [(AccountId ''A'', 10::nat)] True) \<and>
   \<not> isCurrentTip (OpenTipTo225 ''reason'' (AccountId ''W'') (OptionSome (AccountId ''F'', 7)) OptionNone [(AccountId ''A'', 10::nat)]) \<and>
   extractTipState (OpenTip ''reason'' (AccountId ''W'') (AccountId ''F'') 7 OptionNone [(AccountId ''A'', 10)] True) [''F''] =
   extractTipState (OpenTip ''reason'' (AccountId ''W'') (AccountId ''F'') 7 OptionNone [(AccountId ''A'', 10)] False) [''F'']"
  using isCurrentTip_iff_field_present [where r = "''reason''" and w = "AccountId ''W''"
      and f = "AccountId ''F''" and d = 7 and c = OptionNone and t = "[(AccountId ''A'', 10::nat)]"
      and ts = "[(AccountId ''A'', 10)]" and allAccounts = "[''F'']"
      and fo = "OptionSome (AccountId ''F'', 7)"
      and tip = "OpenTip ''reason'' (AccountId ''W'') (AccountId ''F'') 7 OptionNone [(AccountId ''A'', 10::nat)] False"]
  by blast

text \<open>
  C10. In the returned state \<open>closesAt\<close> is the block number in the tip's optional
  \<^verbatim>\<open>closes\<close> when present and \<^verbatim>\<open>null\<close> when absent, for any two lists of local
  accounts alike.
\<close>

theorem closesAt_is_closes:
  "\<exists>st st'. extractTipState tip allAccounts = Inr st \<and>
             extractTipState tip allAccounts' = Inr st' \<and>
             closesAt st = (case closes tip of OptionNone \<Rightarrow> None | OptionSome b \<Rightarrow> Some b) \<and>
             closesAt st' = closesAt st"
proof -
  have "unwrapOr (closes tip) None = (case closes tip of OptionNone \<Rightarrow> None | OptionSome b \<Rightarrow> Some b)"
    by (cases "closes tip") simp_all
  then show ?thesis
    using extractTipState_total [of tip allAccounts] extractTipState_total [of tip allAccounts']
    by auto
qed

theorem closesAt_is_closes_witness:
  "(\<exists>st. extractTipState (OpenTip ''reason'' (AccountId ''W'') (AccountId ''F'') 7 (OptionSome 1200) [] False) [''A''] = Inr st \<and>
         closesAt st = Some 1200) \<and>
   (\<exists>st. extractTipState (OpenTipTo225 ''reason'' (AccountId ''W'') OptionNone OptionNone []) [] = Inr st \<and>
         closesAt st = None)"
  using closesAt_is_closes [of "OpenTip ''reason'' (AccountId ''W'') (AccountId ''F'') 7 (OptionSome 1200) [] False" "[''A'']" "[]"]
    closesAt_is_closes [of "OpenTipTo225 ''reason'' (AccountId ''W'') OptionNone OptionNone []" "[]" "[]"]
  by auto

end
